theory Spec2Isabelle
  imports Complex_Main "HOL-Library.Sublist"
begin

section \<open>Python values and strings\<close>

text \<open>
  The module \<^verbatim>\<open>evaluate/llm_handler.py\<close> holds one class, \<^verbatim>\<open>LLMHandler\<close>, with three
  tables built by \<^verbatim>\<open>__init__\<close> and four methods. Identifiers (model names, provider
  names, patterns, API keys) are Python \<^verbatim>\<open>str\<close>; a \<^verbatim>\<open>str\<close> is modelled as the
  \<open>string\<close> of the bytes of its UTF-8 encoding. An ASCII character is one byte below 128,
  every other character is a run of bytes from 128 on, and a text occurs in another as a
  run of characters exactly when its bytes occur there as a run of bytes.

  \<^verbatim>\<open>str.lower\<close> and \<^verbatim>\<open>str.upper\<close> belong to the interpreter, not to this module, and
  they follow the Unicode case tables: \<^verbatim>\<open>str.lower\<close> sends the Kelvin sign to \<^verbatim>\<open>k\<close>,
  \<^verbatim>\<open>str.upper\<close> sends the sharp s to \<^verbatim>\<open>SS\<close>. The detection of a provider therefore
  takes the case mapping as a parameter, and what is proved of it holds for every such
  function. \<open>str_lower\<close> and \<open>str_upper\<close> below are the two mappings on the ASCII
  letters only: they are what the interpreter computes on an ASCII text, and every
  identifier of the three tables is ASCII. On a text with other characters they leave
  those characters as they are, which the interpreter need not do.
\<close>

definition lower_char :: "char \<Rightarrow> char" where
  "lower_char c =
     (case map_of (zip ''ABCDEFGHIJKLMNOPQRSTUVWXYZ'' ''abcdefghijklmnopqrstuvwxyz'') c of
        Some d \<Rightarrow> d
      | None \<Rightarrow> c)"

definition upper_char :: "char \<Rightarrow> char" where
  "upper_char c =
     (case map_of (zip ''abcdefghijklmnopqrstuvwxyz'' ''ABCDEFGHIJKLMNOPQRSTUVWXYZ'') c of
        Some d \<Rightarrow> d
      | None \<Rightarrow> c)"

definition str_lower :: "string \<Rightarrow> string" where
  "str_lower s = map lower_char s"

definition str_upper :: "string \<Rightarrow> string" where
  "str_upper s = map upper_char s"

text \<open>
  \<^verbatim>\<open>pattern in s\<close> on two Python strings: \<open>pattern\<close> occurs in \<open>s\<close> as a contiguous
  run. The search tries every start position from the left.
\<close>

fun str_contains :: "string \<Rightarrow> string \<Rightarrow> bool" where
  "str_contains pattern [] = (pattern = [])"
| "str_contains pattern (c # cs) = (prefix pattern (c # cs) \<or> str_contains pattern cs)"

text \<open>
  The values that travel as keyword arguments. A \<^verbatim>\<open>float\<close> is only stored and
  passed on, never computed with; a literal such as \<^verbatim>\<open>0.6\<close> is kept as the decimal
  it is written as.
\<close>

datatype pyval = PyNone | PyFloat rat | PyInt int | PyStr string | PyBool bool

text \<open>
  A Python \<^verbatim>\<open>dict\<close> keeps its keys in insertion order; it is an association list
  with distinct keys. \<^verbatim>\<open>d[k] = v\<close> replaces the value in place when \<open>k\<close> is a key and
  appends the pair otherwise; \<^verbatim>\<open>d.pop(k, None)\<close> removes the key when it is there;
  \<^verbatim>\<open>{**d, **kw}\<close> stores the pairs of \<open>kw\<close> one after the other.
\<close>

type_synonym 'v dict = "(string \<times> 'v) list"

fun dict_set :: "'v dict \<Rightarrow> string \<Rightarrow> 'v \<Rightarrow> 'v dict" where
  "dict_set [] k v = [(k, v)]"
| "dict_set ((k', v') # d) k v = (if k' = k then (k, v) # d else (k', v') # dict_set d k v)"

definition dict_pop :: "'v dict \<Rightarrow> string \<Rightarrow> 'v dict" where
  "dict_pop d k = filter (\<lambda>(k', v'). k' \<noteq> k) d"

definition dict_update :: "'v dict \<Rightarrow> 'v dict \<Rightarrow> 'v dict" where
  "dict_update d kw = foldl (\<lambda>acc (k, v). dict_set acc k v) d kw"

definition dict_keys :: "'v dict \<Rightarrow> string list" where
  "dict_keys d = map fst d"

section \<open>The handler and its tables\<close>

text \<open>
  The three attributes set by \<^verbatim>\<open>LLMHandler.__init__\<close>. Every method reads them
  through \<^verbatim>\<open>self\<close>, so each modelled method takes the handler as its first argument.
\<close>

record LLMHandler =
  available_models :: "string list dict"
  model_types :: "string dict"
  model_patterns :: "string dict"

text \<open>
  \<^verbatim>\<open>__init__\<close>, lines 19 to 96. The catalog \<^verbatim>\<open>available_models\<close> has the single key
  \<^verbatim>\<open>"ollama"\<close>: the entries of the six other providers are commented out in the source.
\<close>

definition LLMHandler_init :: LLMHandler where
  "LLMHandler_init =
     \<lparr> available_models =
         [(''ollama'', [''llama3.2:3b'', ''mistral:7b''])],
       model_types =
         [(''llama3.2:3b'', ''open-source''),
          (''mistral:7b'', ''open-source''),
          (''claude-3-5-sonnet-20241022'', ''private''),
          (''claude-3-5-haiku-20241022'', ''private''),
          (''open-mistral-nemo-2407'', ''open-source''),
          (''ministral-8b-2410'', ''private''),
          (''mistral-small-2409'', ''private''),
          (''mistral-large-2411'', ''private''),
          (''gemini-2.0-flash-exp'', ''private''),
          (''gemini-1.5-flash'', ''private''),
          (''gemini-1.5-pro'', ''private''),
          (''gemini-2.0-flash-001'', ''private''),
          (''meta-llama/Llama-3.3-70B-Instruct-Turbo'', ''open-source''),
          (''meta-llama/Meta-Llama-3.1-8B-Instruct-Turbo'', ''open-source''),
          (''gpt-4o-2024-11-20'', ''private''),
          (''gpt-4o-mini'', ''private''),
          (''o1-2024-12-17'', ''private''),
          (''accounts/fireworks/models/qwen-qwq-32b-preview'', ''open-source''),
          (''accounts/fireworks/models/qwen2p5-72b-instruct'', ''open-source''),
          (''accounts/fireworks/models/deepseek-v3'', ''open-source''),
          (''accounts/fireworks/models/deepseek-r1'', ''open-source'')],
       model_patterns =
         [(''o1'', ''openai''),
          (''o3'', ''openai''),
          (''gpt-4o'', ''openai''),
          (''claude'', ''anthropic''),
          (''mistral-'', ''mistral''),
          (''ministral'', ''mistral''),
          (''gemini'', ''google''),
          (''mixtral'', ''together''),
          (''llama'', ''ollama''),
          (''fireworks'', ''fireworks''),
          (''r1'', ''together''),
          (''deepseek-v3'', ''together'')] \<rparr>"

section \<open>Errors\<close>

text \<open>
  The three \<^verbatim>\<open>ValueError\<close>s the module raises itself, told apart by their message and
  named as the specification names them, each with the values its message prints. The two
  others come from the interpreter: \<^verbatim>\<open>TypeError\<close> when a call gets the same keyword
  twice (once by name, once through \<^verbatim>\<open>**model_params\<close>), and the \<^verbatim>\<open>ValueError\<close> of
  \<^verbatim>\<open>os.environ\<close> for a name or value it cannot store.
\<close>

datatype error =
    ProviderDetectionError string
  | UnsupportedProviderError string "string list"
  | UnsupportedModelError string string "string list"
  | DuplicateKeywordError string
  | EnvironError string

section \<open>Detection, validation, enumeration\<close>

text \<open>
  \<^verbatim>\<open>_detect_provider\<close>, lines 98 to 105 (here and for \<^verbatim>\<open>_validate_model\<close> the
  constant has the method's name without the leading underscore): the \<^verbatim>\<open>for\<close> loop over
  \<^verbatim>\<open>self.model_patterns.items()\<close> returns at the first pattern found in
  \<^verbatim>\<open>model_name.lower()\<close>; falling out of the loop raises. The parameter \<open>lower\<close>
  stands for \<^verbatim>\<open>str.lower\<close>; it is applied to the model name, as given, in every
  round of the loop.
\<close>

fun detect_loop_with :: "(string \<Rightarrow> string) \<Rightarrow> string dict \<Rightarrow> string \<Rightarrow> string option" where
  "detect_loop_with lower [] model_name = None"
| "detect_loop_with lower ((pattern, provider) # rest) model_name =
     (if str_contains pattern (lower model_name) then Some provider
      else detect_loop_with lower rest model_name)"

definition detect_provider_with :: "(string \<Rightarrow> string) \<Rightarrow> LLMHandler \<Rightarrow> string \<Rightarrow> error + string" where
  "detect_provider_with lower self model_name =
     (case detect_loop_with lower (model_patterns self) model_name of
        Some provider \<Rightarrow> Inr provider
      | None \<Rightarrow> Inl (ProviderDetectionError model_name))"

text \<open>
  The method with the ASCII lower-casing for \<^verbatim>\<open>str.lower\<close>: what the method computes on
  every ASCII model name, and on every name on which \<^verbatim>\<open>str.lower\<close> changes the ASCII
  capital letters only.
\<close>

definition detect_provider :: "LLMHandler \<Rightarrow> string \<Rightarrow> error + string" where
  "detect_provider self model_name = detect_provider_with str_lower self model_name"

text \<open>
  The specification's wording of the same operation: the provider of the first pair of the
  table, in definition order, whose pattern is a substring of the lower-cased name, where
  substring is \<^const>\<open>sublist\<close> (some text before, the pattern, some text after) and
  the lower-cased name is the name under the case mapping \<open>lower\<close>.
\<close>

definition detect_provider_spec :: "(string \<Rightarrow> string) \<Rightarrow> LLMHandler \<Rightarrow> string \<Rightarrow> error + string" where
  "detect_provider_spec lower self model_name =
     (case find (\<lambda>(pattern, provider). sublist pattern (lower model_name))
             (model_patterns self) of
        Some (pattern, provider) \<Rightarrow> Inr provider
      | None \<Rightarrow> Inl (ProviderDetectionError model_name))"

text \<open>\<^verbatim>\<open>_validate_model\<close>, lines 107 to 121.\<close>

definition validate_model :: "LLMHandler \<Rightarrow> string \<Rightarrow> string \<Rightarrow> error + bool" where
  "validate_model self provider model_name =
     (case map_of (available_models self) provider of
        None \<Rightarrow>
          Inl (UnsupportedProviderError provider (dict_keys (available_models self)))
      | Some models \<Rightarrow>
          if model_name \<notin> set models
          then Inl (UnsupportedModelError model_name provider models)
          else Inr True)"

text \<open>
  \<^verbatim>\<open>get_all_models\<close>, lines 123 to 130: the loop extends the accumulator by each
  provider's list, in the order of \<^verbatim>\<open>items()\<close>.
\<close>

definition get_all_models :: "LLMHandler \<Rightarrow> string list" where
  "get_all_models self =
     foldl (\<lambda>all_models (provider, models). all_models @ models) [] (available_models self)"

section \<open>Building a client\<close>

text \<open>
  What \<^verbatim>\<open>get_llm\<close> touches outside its arguments: the process environment
  \<^verbatim>\<open>os.environ\<close> and the lines it prints.
\<close>

record world =
  environ :: "string \<rightharpoonup> string"
  stdout :: "string list"

text \<open>
  \<^verbatim>\<open>os.environ[name] = v\<close>. The interpreter refuses a name or a value with a NUL
  character, and a name that is empty or holds \<^verbatim>\<open>=\<close>, with a \<^verbatim>\<open>ValueError\<close>;
  otherwise the variable is set.
\<close>

definition environ_setitem :: "world \<Rightarrow> string \<Rightarrow> string \<Rightarrow> error + world" where
  "environ_setitem w name v =
     (if CHR 0x00 \<in> set name \<or> CHR 0x00 \<in> set v
      then Inl (EnvironError ''embedded null byte'')
      else if name = [] \<or> CHR ''='' \<in> set name
      then Inl (EnvironError ''illegal environment variable name'')
      else Inr (w\<lparr>environ := (environ w)(name \<mapsto> v)\<rparr>))"

definition print_line :: "world \<Rightarrow> string \<Rightarrow> world" where
  "print_line w s = w\<lparr>stdout := stdout w @ [s]\<rparr>"

text \<open>
  The chat clients are classes of seven third-party packages. What this module decides
  is which class is called and with which keyword arguments, so a client is modelled as
  that call: the class and the keyword arguments in the order they are passed. A keyword
  given by name and again through \<^verbatim>\<open>**model_params\<close> makes the call itself fail.
\<close>

datatype chat_class =
    ChatAnthropic | ChatMistralAI | ChatGoogleGenerativeAI | ChatTogether
  | ChatOpenAI | ChatFireworks | ChatOllama

record chat_model =
  cls :: chat_class
  ctor_kwargs :: "pyval dict"

definition call_constructor :: "chat_class \<Rightarrow> pyval dict \<Rightarrow> pyval dict \<Rightarrow> error + chat_model option" where
  "call_constructor c named model_params =
     (case find (\<lambda>k. k \<in> set (dict_keys named)) (dict_keys model_params) of
        Some k \<Rightarrow> Inl (DuplicateKeywordError k)
      | None \<Rightarrow> Inr (Some \<lparr>cls = c, ctor_kwargs = named @ model_params\<rparr>))"

text \<open>
  Lines 165 to 176 of \<^verbatim>\<open>get_llm\<close>: the dictionary literal, the two independent
  \<^verbatim>\<open>if\<close> statements on the model name (both tests are on \<^verbatim>\<open>model_name\<close> as given,
  not lower-cased), and the comprehension that drops the \<^verbatim>\<open>None\<close> values.
\<close>

definition build_model_params :: "string \<Rightarrow> rat \<Rightarrow> int option \<Rightarrow> pyval dict \<Rightarrow> pyval dict" where
  "build_model_params model_name temperature max_tokens kwargs =
     (let model_params =
            dict_update
              [(''temperature'', PyFloat temperature),
               (''max_tokens'', (case max_tokens of None \<Rightarrow> PyNone | Some n \<Rightarrow> PyInt n))]
              kwargs;
          model_params =
            (if str_contains ''o1'' model_name \<or> str_contains ''o3'' model_name
             then dict_pop model_params ''temperature'' else model_params);
          model_params =
            (if str_contains ''r1'' model_name
             then dict_set model_params ''temperature'' (PyFloat 0.6) else model_params)
      in filter (\<lambda>(k, v). v \<noteq> PyNone) model_params)"

text \<open>
  Lines 178 to 204: the \<^verbatim>\<open>if\<close>/\<^verbatim>\<open>elif\<close> chain on the provider. Each branch prints
  its line and then calls its class. There is no \<^verbatim>\<open>else\<close>: for any other provider
  the function falls off its end and returns \<^verbatim>\<open>None\<close>.
\<close>

definition dispatch :: "world \<Rightarrow> string \<Rightarrow> string \<Rightarrow> pyval dict \<Rightarrow> (error + chat_model option) \<times> world" where
  "dispatch w provider model_name model_params =
     (if provider = ''anthropic'' then
        (call_constructor ChatAnthropic [(''model_name'', PyStr model_name)] model_params,
         print_line w ''Using Anthropic AI'')
      else if provider = ''mistral'' then
        (call_constructor ChatMistralAI [(''model_name'', PyStr model_name)] model_params,
         print_line w ''Using Mistral AI'')
      else if provider = ''google'' then
        (call_constructor ChatGoogleGenerativeAI [(''model'', PyStr model_name)] model_params,
         print_line w ''Using Google Generative AI'')
      else if provider = ''together'' then
        (call_constructor ChatTogether [(''model'', PyStr model_name)] model_params,
         print_line w ''Using ChatTogether'')
      else if provider = ''openai'' then
        (call_constructor ChatOpenAI [(''model'', PyStr model_name)] model_params,
         print_line w ''Using OpenAI'')
      else if provider = ''fireworks'' then
        (call_constructor ChatFireworks [(''model'', PyStr model_name)] model_params,
         print_line w ''Using Fireworks'')
      else if provider = ''ollama'' then
        (call_constructor ChatOllama
           [(''model'', PyStr ''llama3.1:8b-instruct-q8_0''),
            (''base_url'', PyStr ''http://host.docker.internal:11434/v1'')]
           model_params,
         print_line w ''Using Ollama'')
      else (Inr None, w))"

text \<open>
  \<^verbatim>\<open>get_llm\<close>, lines 132 to 204. An exception leaves the function at once, with the
  world as it is at that point. \<^verbatim>\<open>if api_key:\<close> is false for \<^verbatim>\<open>None\<close> and for the
  empty string. The defaults of the signature are \<^verbatim>\<open>provider=None\<close>,
  \<^verbatim>\<open>temperature=0.0\<close>, \<^verbatim>\<open>max_tokens=4000\<close>, \<^verbatim>\<open>api_key=None\<close> and no further keyword.
  The detection is \<open>detect_provider\<close> and the upper-casing of the provider is
  \<open>str_upper\<close>, the interpreter's case mappings on ASCII names: the definition is the
  method for ASCII model and provider names, which are the names of the tables and of
  the seven branches of the dispatch.
\<close>

definition get_llm ::
  "LLMHandler \<Rightarrow> world \<Rightarrow> string \<Rightarrow> string option \<Rightarrow> rat \<Rightarrow> int option \<Rightarrow> string option
     \<Rightarrow> pyval dict \<Rightarrow> (error + chat_model option) \<times> world" where
  "get_llm self w model_name provider temperature max_tokens api_key kwargs =
     (case (case provider of None \<Rightarrow> detect_provider self model_name | Some p \<Rightarrow> Inr p) of
        Inl e \<Rightarrow> (Inl e, w)
      | Inr provider' \<Rightarrow>
          (case validate_model self provider' model_name of
             Inl e \<Rightarrow> (Inl e, w)
           | Inr ok \<Rightarrow>
               (case (case api_key of
                        None \<Rightarrow> Inr w
                      | Some key \<Rightarrow>
                          if key = [] then Inr w
                          else environ_setitem w (str_upper provider' @ ''_API_KEY'') key) of
                  Inl e \<Rightarrow> (Inl e, w)
                | Inr w' \<Rightarrow>
                    dispatch w' provider' model_name
                      (build_model_params model_name temperature max_tokens kwargs))))"

section \<open>Strings, dictionaries and the loop of detection\<close>

lemma str_contains_sublist: "str_contains pattern s \<longleftrightarrow> sublist pattern s"
  by (induction s) (simp_all add: sublist_Cons_right)

lemma str_contains_iff: "str_contains pattern s \<longleftrightarrow> (\<exists>before after. s = before @ pattern @ after)"
  by (simp add: str_contains_sublist sublist_def)

lemma detect_loop_find:
  "detect_loop_with lower table model_name =
     map_option snd (find (\<lambda>(pattern, provider). sublist pattern (lower model_name)) table)"
  by (induction table) (auto simp: str_contains_sublist)

lemma detect_provider_unfold:
  "detect_provider self model_name =
     (case detect_loop_with str_lower (model_patterns self) model_name of
        Some provider \<Rightarrow> Inr provider
      | None \<Rightarrow> Inl (ProviderDetectionError model_name))"
  by (simp add: detect_provider_def detect_provider_with_def)

text \<open>
  The loop reads \<open>lower\<close> at the model name only: two case mappings that agree on a name
  detect the same provider for it. So \<open>detect_provider\<close> is the method on every name on
  which \<^verbatim>\<open>str.lower\<close> and \<open>str_lower\<close> agree.
\<close>

lemma detect_loop_with_cong:
  "lower model_name = lower' model_name \<Longrightarrow>
     detect_loop_with lower table model_name = detect_loop_with lower' table model_name"
  by (induction table) auto

lemma detect_provider_with_cong:
  "lower model_name = str_lower model_name \<Longrightarrow>
     detect_provider_with lower self model_name = detect_provider self model_name"
  by (simp add: detect_provider_def detect_provider_with_def
      detect_loop_with_cong [of lower model_name str_lower])

text \<open>
  The two ASCII mappings by the codes of the characters: a capital letter (65 to 90) moves
  up by 32 and a small letter (97 to 122) moves down by 32; every other byte stays.
\<close>

lemma lower_char_code:
  "lower_char c =
     (if 65 \<le> (of_char c :: nat) \<and> (of_char c :: nat) \<le> 90
      then char_of (of_char c + 32 :: nat) else c)"
proof (cases c)
  case (Char b0 b1 b2 b3 b4 b5 b6 b7)
  show ?thesis unfolding Char
    by (cases b0; cases b1; cases b2; cases b3; cases b4; cases b5; cases b6; cases b7)
       (simp_all add: lower_char_def char_of_def bit_Suc_0_iff)
qed

lemma upper_char_code:
  "upper_char c =
     (if 97 \<le> (of_char c :: nat) \<and> (of_char c :: nat) \<le> 122
      then char_of (of_char c - 32 :: nat) else c)"
proof (cases c)
  case (Char b0 b1 b2 b3 b4 b5 b6 b7)
  show ?thesis unfolding Char
    by (cases b0; cases b1; cases b2; cases b3; cases b4; cases b5; cases b6; cases b7)
       (simp_all add: upper_char_def char_of_def bit_Suc_0_iff)
qed

lemma str_upper_code:
  "str_upper s =
     map (\<lambda>c. if 97 \<le> (of_char c :: nat) \<and> (of_char c :: nat) \<le> 122
               then char_of (of_char c - 32 :: nat) else c) s"
  by (simp add: str_upper_def upper_char_code)

lemma foldl_extend:
  "foldl (\<lambda>all_models (provider, models). all_models @ models) acc table = acc @ concat (map snd table)"
  by (induction table arbitrary: acc) (auto split: prod.splits)

lemma dict_keys_simps: "dict_keys [] = []" "dict_keys ((k, v) # d) = k # dict_keys d"
  by (simp_all add: dict_keys_def)

lemma map_of_dict_set: "map_of (dict_set d k v) k = Some v"
  by (induction d k v rule: dict_set.induct) auto

lemma keys_dict_pop: "set (dict_keys (dict_pop d k)) = set (dict_keys d) - {k}"
  by (auto simp: dict_pop_def dict_keys_def)

lemma keys_drop_None: "set (dict_keys (filter (\<lambda>(k, v). v \<noteq> PyNone) d)) \<subseteq> set (dict_keys d)"
  by (auto simp: dict_keys_def)

lemma map_of_drop_None:
  "map_of d k = Some v \<Longrightarrow> v \<noteq> PyNone \<Longrightarrow> map_of (filter (\<lambda>(k, v). v \<noteq> PyNone) d) k = Some v"
  by (induction d) (auto split: if_splits)

section \<open>The shipped tables at the names the properties use\<close>

lemma catalog_init: "available_models LLMHandler_init = [(''ollama'', [''llama3.2:3b'', ''mistral:7b''])]"
  by (simp add: LLMHandler_init_def)

lemma detect_o1: "detect_loop_with str_lower (model_patterns LLMHandler_init) ''o1-2024-12-17'' = Some ''openai''"
  by (simp add: LLMHandler_init_def str_lower_def lower_char_def)

lemma detect_deepseek_r1:
  "detect_loop_with str_lower (model_patterns LLMHandler_init) ''accounts/fireworks/models/deepseek-r1'' = Some ''fireworks''"
  by (simp add: LLMHandler_init_def str_lower_def lower_char_def)

lemma detect_mistral_7b: "detect_loop_with str_lower (model_patterns LLMHandler_init) ''mistral:7b'' = None"
  by (simp add: LLMHandler_init_def str_lower_def lower_char_def)


lemma detect_capitals:
  "detect_loop_with str_lower (model_patterns LLMHandler_init) ''Meta-LLAMA-3.1-8B'' = Some ''ollama''"
  by (simp add: LLMHandler_init_def str_lower_def lower_char_def)

lemma detect_capitals_as_given:
  "detect_loop_with (\<lambda>s. s) (model_patterns LLMHandler_init) ''Meta-LLAMA-3.1-8B'' = None"
  by (simp add: LLMHandler_init_def)


lemma upper_openai: "str_upper ''openai'' @ ''_API_KEY'' = ''OPENAI_API_KEY''"
  by (simp add: str_upper_def upper_char_def)

section \<open>The assembled parameters\<close>

text \<open>
  A name with \<^verbatim>\<open>r1\<close> in it ends with temperature 0.6 whatever came before: the
  second \<^verbatim>\<open>if\<close> stores the key again after the first one has removed it.
\<close>

lemma temperature_of_r1:
  "str_contains ''r1'' model_name \<Longrightarrow>
     map_of (build_model_params model_name temperature max_tokens kwargs) ''temperature'' = Some (PyFloat 0.6)"
  by (simp add: build_model_params_def Let_def map_of_drop_None map_of_dict_set)

text \<open>A name with \<^verbatim>\<open>o1\<close> or \<^verbatim>\<open>o3\<close> and without \<^verbatim>\<open>r1\<close> ends with no temperature.\<close>

lemma temperature_of_o1_o3:
  assumes "str_contains ''o1'' model_name \<or> str_contains ''o3'' model_name"
      and "\<not> str_contains ''r1'' model_name"
    shows "''temperature'' \<notin> set (dict_keys (build_model_params model_name temperature max_tokens kwargs))"
proof -
  let ?d = "dict_pop (dict_update [(''temperature'', PyFloat temperature),
               (''max_tokens'', (case max_tokens of None \<Rightarrow> PyNone | Some n \<Rightarrow> PyInt n))] kwargs) ''temperature''"
  have "build_model_params model_name temperature max_tokens kwargs = filter (\<lambda>(k, v). v \<noteq> PyNone) ?d"
    using assms by (auto simp add: build_model_params_def Let_def)
  moreover have "''temperature'' \<notin> set (dict_keys ?d)"
    by (simp add: keys_dict_pop)
  ultimately show ?thesis
    using keys_drop_None [of ?d] by auto
qed

lemma params_o1:
  "build_model_params ''o1-2024-12-17'' temperature (Some 4000) [] = [(''max_tokens'', PyInt 4000)]"
  by (simp add: build_model_params_def dict_update_def dict_pop_def)

lemma params_deepseek_r1:
  "build_model_params ''accounts/fireworks/models/deepseek-r1'' temperature (Some 4000) [] =
     [(''temperature'', PyFloat 0.6), (''max_tokens'', PyInt 4000)]"
  by (simp add: build_model_params_def dict_update_def dict_pop_def)


section \<open>The steps of \<open>get_llm\<close>\<close>

lemma validate_model_listed:
  "map_of (available_models self) provider = Some models \<Longrightarrow> model_name \<in> set models \<Longrightarrow>
     validate_model self provider model_name = Inr True"
  by (simp add: validate_model_def)

lemma environ_setitem_ok:
  "environ_setitem w name v = Inr w' \<Longrightarrow> w' = w\<lparr>environ := (environ w)(name \<mapsto> v)\<rparr>"
  by (auto simp: environ_setitem_def split: if_splits)

lemma environ_dispatch: "environ (snd (dispatch w provider model_name model_params)) = environ w"
  by (simp add: dispatch_def print_line_def)

lemma dispatch_temperature:
  "fst (dispatch w provider model_name model_params) = Inr (Some client) \<Longrightarrow>
     map_of (ctor_kwargs client) ''temperature'' = map_of model_params ''temperature''"
  by (auto simp: dispatch_def call_constructor_def split: if_splits option.splits)


text \<open>A failed validation leaves \<open>get_llm\<close> with that error and the world untouched.\<close>

lemma get_llm_fails_early:
  "(case provider of None \<Rightarrow> detect_provider self model_name | Some p \<Rightarrow> Inr p) = Inr provider' \<Longrightarrow>
   validate_model self provider' model_name = Inl e \<Longrightarrow>
   get_llm self w model_name provider temperature max_tokens api_key kwargs = (Inl e, w)"
  by (simp add: get_llm_def)

lemma get_llm_no_key:
  "(case provider of None \<Rightarrow> detect_provider self model_name | Some p \<Rightarrow> Inr p) = Inr provider' \<Longrightarrow>
   validate_model self provider' model_name = Inr True \<Longrightarrow>
   get_llm self w model_name provider temperature max_tokens None kwargs =
     dispatch w provider' model_name (build_model_params model_name temperature max_tokens kwargs)"
  by (simp add: get_llm_def)

text \<open>
  A call that returns has resolved a provider, passed validation and stored the key (when
  there is one to store); what it returns is what the dispatch returns.
\<close>

lemma get_llm_returns:
  assumes "fst (get_llm self w model_name provider temperature max_tokens api_key kwargs) = Inr r"
  obtains provider' w' where
    "(case provider of None \<Rightarrow> detect_provider self model_name | Some p \<Rightarrow> Inr p) = Inr provider'"
    "validate_model self provider' model_name = Inr True"
    "(case api_key of None \<Rightarrow> Inr w
      | Some key \<Rightarrow> if key = [] then Inr w
                    else environ_setitem w (str_upper provider' @ ''_API_KEY'') key) = Inr w'"
    "get_llm self w model_name provider temperature max_tokens api_key kwargs =
       dispatch w' provider' model_name (build_model_params model_name temperature max_tokens kwargs)"
proof -
  obtain provider' where p: "(case provider of None \<Rightarrow> detect_provider self model_name | Some p \<Rightarrow> Inr p) = Inr provider'"
    using assms by (cases "case provider of None \<Rightarrow> detect_provider self model_name | Some p \<Rightarrow> Inr p")
      (simp_all add: get_llm_def)
  have v: "validate_model self provider' model_name = Inr True"
    using assms p by (cases "validate_model self provider' model_name")
      (auto simp add: get_llm_def validate_model_def split: option.splits if_splits)
  obtain w' where k: "(case api_key of None \<Rightarrow> Inr w
      | Some key \<Rightarrow> if key = [] then Inr w
                    else environ_setitem w (str_upper provider' @ ''_API_KEY'') key) = Inr w'"
    using assms p v by (cases "case api_key of None \<Rightarrow> Inr w
      | Some key \<Rightarrow> if key = [] then Inr w
                    else environ_setitem w (str_upper provider' @ ''_API_KEY'') key")
      (simp_all add: get_llm_def)
  show thesis
    using that [OF p v k] p v k by (simp add: get_llm_def)
qed

text \<open>
  The key step for any provider: once validation has passed and \<^verbatim>\<open>os.environ\<close> accepts
  the pair, the variable named by the upper-cased provider and \<^verbatim>\<open>_API_KEY\<close> holds the key.
\<close>

lemma api_key_exported:
  assumes "validate_model self provider model_name = Inr True"
    and "api_key \<noteq> []"
    and "environ_setitem w (str_upper provider @ ''_API_KEY'') api_key = Inr w'"
  shows "environ (snd (get_llm self w model_name (Some provider) temperature max_tokens (Some api_key) kwargs))
           = (environ w)(str_upper provider @ ''_API_KEY'' \<mapsto> api_key)"
  using assms environ_setitem_ok [OF assms(3)] by (simp add: get_llm_def environ_dispatch)

lemma o3_r1_call:
  "fst (get_llm (LLMHandler_init\<lparr>available_models := [(''ollama'', [''o3-r1''])]\<rparr>)
          \<lparr>environ = Map.empty, stdout = []\<rparr> ''o3-r1'' (Some ''ollama'') 0.2 None None [])
     = Inr (Some \<lparr>cls = ChatOllama,
                  ctor_kwargs = [(''model'', PyStr ''llama3.1:8b-instruct-q8_0''),
                                 (''base_url'', PyStr ''http://host.docker.internal:11434/v1''),
                                 (''temperature'', PyFloat 0.6)]\<rparr>)"
  by (simp add: get_llm_def validate_model_def dispatch_def call_constructor_def
      build_model_params_def dict_update_def dict_pop_def dict_keys_def)


section \<open>The properties\<close>

subsection \<open>Model names with both \<open>o1\<close>/\<open>o3\<close> and \<open>r1\<close>\<close>

text \<open>
  C1. The two tests of lines 168 and 172 are separate \<^verbatim>\<open>if\<close> statements, so for a model
  name that contains \<^verbatim>\<open>o1\<close> or \<^verbatim>\<open>o3\<close> and also \<^verbatim>\<open>r1\<close> the temperature
  is first removed and then stored again: every call of \<open>get_llm\<close> with such a name that
  returns a client has passed the key \<^verbatim>\<open>temperature\<close> to the constructor, with the value
  0.6. (With the catalog as shipped no such name is listed, and the call fails in
  validation before any parameter is assembled.)
\<close>

theorem r1_override_sets_temperature:
  assumes "str_contains ''o1'' model_name \<or> str_contains ''o3'' model_name"
    and "str_contains ''r1'' model_name"
    and "fst (get_llm self w model_name provider temperature max_tokens api_key kwargs) = Inr (Some client)"
  shows "map_of (ctor_kwargs client) ''temperature'' = Some (PyFloat 0.6)"
proof -
  from assms(3) obtain provider' w' where
    "get_llm self w model_name provider temperature max_tokens api_key kwargs =
       dispatch w' provider' model_name (build_model_params model_name temperature max_tokens kwargs)"
    by (rule get_llm_returns)
  with assms(3) have
    "fst (dispatch w' provider' model_name (build_model_params model_name temperature max_tokens kwargs))
       = Inr (Some client)"
    by simp
  then have "map_of (ctor_kwargs client) ''temperature'' =
      map_of (build_model_params model_name temperature max_tokens kwargs) ''temperature''"
    by (rule dispatch_temperature)
  with assms(2) show ?thesis
    by (simp add: temperature_of_r1)
qed

text \<open>
  The theorem at a handler whose catalog lists the name \<^verbatim>\<open>o3-r1\<close> under
  \<^verbatim>\<open>ollama\<close>.
\<close>

theorem r1_override_sets_temperature_witness:
  "(str_contains ''o1'' ''o3-r1'' \<or> str_contains ''o3'' ''o3-r1'')
   \<and> str_contains ''r1'' ''o3-r1''
   \<and> fst (get_llm (LLMHandler_init\<lparr>available_models := [(''ollama'', [''o3-r1''])]\<rparr>)
          \<lparr>environ = Map.empty, stdout = []\<rparr> ''o3-r1'' (Some ''ollama'') 0.2 None None [])
     = Inr (Some \<lparr>cls = ChatOllama,
                  ctor_kwargs = [(''model'', PyStr ''llama3.1:8b-instruct-q8_0''),
                                 (''base_url'', PyStr ''http://host.docker.internal:11434/v1''),
                                 (''temperature'', PyFloat 0.6)]\<rparr>)
   \<and> map_of (ctor_kwargs \<lparr>cls = ChatOllama,
                  ctor_kwargs = [(''model'', PyStr ''llama3.1:8b-instruct-q8_0''),
                                 (''base_url'', PyStr ''http://host.docker.internal:11434/v1''),
                                 (''temperature'', PyFloat 0.6)]\<rparr>) ''temperature'' = Some (PyFloat 0.6)"
proof -
  have a: "str_contains ''o1'' ''o3-r1'' \<or> str_contains ''o3'' ''o3-r1''" by simp
  have b: "str_contains ''r1'' ''o3-r1''" by simp
  show ?thesis
    using a b o3_r1_call r1_override_sets_temperature [OF a b o3_r1_call] by simp
qed

text \<open>
  A call whose model name \<^verbatim>\<open>o1-r1\<close> contains both \<^verbatim>\<open>o1\<close> and \<^verbatim>\<open>r1\<close>, on a handler
  whose catalog lists that name under \<^verbatim>\<open>openai\<close>, with temperature 0.9: the constructor
  of \<^verbatim>\<open>ChatOpenAI\<close> receives \<^verbatim>\<open>temperature=0.6\<close>.
\<close>

theorem o1_r1_temperature_counterexample:
  "(str_contains ''o1'' ''o1-r1'' \<or> str_contains ''o3'' ''o1-r1'')
   \<and> str_contains ''r1'' ''o1-r1''
   \<and> get_llm (LLMHandler_init\<lparr>available_models := [(''openai'', [''o1-r1''])]\<rparr>)
        \<lparr>environ = Map.empty, stdout = []\<rparr> ''o1-r1'' None 0.9 (Some 4000) None []
     = (Inr (Some \<lparr>cls = ChatOpenAI,
                   ctor_kwargs = [(''model'', PyStr ''o1-r1''),
                                  (''max_tokens'', PyInt 4000),
                                  (''temperature'', PyFloat 0.6)]\<rparr>),
        \<lparr>environ = Map.empty, stdout = [''Using OpenAI'']\<rparr>)"
  by (simp add: get_llm_def detect_provider_unfold LLMHandler_init_def str_lower_def lower_char_def
      validate_model_def dispatch_def call_constructor_def print_line_def
      build_model_params_def dict_update_def dict_pop_def dict_keys_def)

subsection \<open>The local provider\<close>




subsection \<open>The calls for \<open>o1-2024-12-17\<close> and for \<open>deepseek-r1\<close>\<close>

text \<open>
  C3. \<^verbatim>\<open>get_llm("o1-2024-12-17", temperature=0.9)\<close> detects the provider
  \<^verbatim>\<open>openai\<close>. The shipped catalog has no such provider (its entry is commented out), so
  on the shipped handler the call raises the unsupported-provider error and assembles
  nothing. On a handler whose catalog lists the name under \<^verbatim>\<open>openai\<close>, the call
  constructs \<^verbatim>\<open>ChatOpenAI\<close> with the model and \<^verbatim>\<open>max_tokens\<close> only: no temperature
  key is passed.
\<close>

theorem o1_2024_call:
  "get_llm LLMHandler_init w ''o1-2024-12-17'' None 0.9 (Some 4000) None []
     = (Inl (UnsupportedProviderError ''openai'' [''ollama'']), w)
   \<and> (\<forall>models. map_of catalog ''openai'' = Some models \<and> ''o1-2024-12-17'' \<in> set models \<longrightarrow>
        get_llm (LLMHandler_init\<lparr>available_models := catalog\<rparr>) w ''o1-2024-12-17'' None 0.9
            (Some 4000) None []
          = (Inr (Some \<lparr>cls = ChatOpenAI,
                        ctor_kwargs = [(''model'', PyStr ''o1-2024-12-17''),
                                       (''max_tokens'', PyInt 4000)]\<rparr>),
             print_line w ''Using OpenAI''))"
proof -
  have d: "detect_provider (LLMHandler_init\<lparr>available_models := c\<rparr>) ''o1-2024-12-17'' = Inr ''openai''"
    for c
    using detect_o1 by (simp add: detect_provider_unfold)
  have d0: "detect_provider LLMHandler_init ''o1-2024-12-17'' = Inr ''openai''"
    using detect_o1 by (simp add: detect_provider_unfold)
  have "validate_model LLMHandler_init ''openai'' ''o1-2024-12-17''
          = Inl (UnsupportedProviderError ''openai'' [''ollama''])"
    by (simp add: validate_model_def catalog_init dict_keys_simps)
  then have shipped: "get_llm LLMHandler_init w ''o1-2024-12-17'' None 0.9 (Some 4000) None []
     = (Inl (UnsupportedProviderError ''openai'' [''ollama'']), w)"
    by (simp add: get_llm_fails_early [where provider' = "''openai''"] d0)
  have "dispatch w ''openai'' ''o1-2024-12-17'' [(''max_tokens'', PyInt 4000)]
      = (Inr (Some \<lparr>cls = ChatOpenAI,
                        ctor_kwargs = [(''model'', PyStr ''o1-2024-12-17''),
                                       (''max_tokens'', PyInt 4000)]\<rparr>),
             print_line w ''Using OpenAI'')"
    by (simp add: dispatch_def call_constructor_def dict_keys_simps)
  then have "get_llm (LLMHandler_init\<lparr>available_models := catalog\<rparr>) w ''o1-2024-12-17'' None 0.9
            (Some 4000) None []
          = (Inr (Some \<lparr>cls = ChatOpenAI,
                        ctor_kwargs = [(''model'', PyStr ''o1-2024-12-17''),
                                       (''max_tokens'', PyInt 4000)]\<rparr>),
             print_line w ''Using OpenAI'')"
    if "map_of catalog ''openai'' = Some models" "''o1-2024-12-17'' \<in> set models" for models
    using that
    by (simp add: get_llm_no_key [where provider' = "''openai''"] d validate_model_listed params_o1)
  with shipped show ?thesis by blast
qed

text \<open>
  The theorem at the catalog with the \<^verbatim>\<open>openai\<close> entry of lines 45 to 50 switched on.
\<close>

theorem o1_2024_call_witness:
  "map_of [(''ollama'', [''llama3.2:3b'', ''mistral:7b'']),
           (''openai'', [''gpt-4o-2024-11-20'', ''gpt-4o-mini'', ''o1-2024-12-17'', ''o3-mini-2025-01-31''])]
      ''openai'' = Some [''gpt-4o-2024-11-20'', ''gpt-4o-mini'', ''o1-2024-12-17'', ''o3-mini-2025-01-31'']
   \<and> ''o1-2024-12-17'' \<in> set [''gpt-4o-2024-11-20'', ''gpt-4o-mini'', ''o1-2024-12-17'', ''o3-mini-2025-01-31'']
   \<and> get_llm (LLMHandler_init\<lparr>available_models :=
          [(''ollama'', [''llama3.2:3b'', ''mistral:7b'']),
           (''openai'', [''gpt-4o-2024-11-20'', ''gpt-4o-mini'', ''o1-2024-12-17'', ''o3-mini-2025-01-31''])]\<rparr>)
        \<lparr>environ = Map.empty, stdout = []\<rparr> ''o1-2024-12-17'' None 0.9 (Some 4000) None []
      = (Inr (Some \<lparr>cls = ChatOpenAI,
                    ctor_kwargs = [(''model'', PyStr ''o1-2024-12-17''),
                                   (''max_tokens'', PyInt 4000)]\<rparr>),
         \<lparr>environ = Map.empty, stdout = [''Using OpenAI'']\<rparr>)"
  using o1_2024_call [where w = "\<lparr>environ = Map.empty, stdout = []\<rparr>" and catalog =
          "[(''ollama'', [''llama3.2:3b'', ''mistral:7b'']),
           (''openai'', [''gpt-4o-2024-11-20'', ''gpt-4o-mini'', ''o1-2024-12-17'', ''o3-mini-2025-01-31''])]"]
  by (simp add: print_line_def)

text \<open>On the shipped handler the call ends in the error: no parameter set is produced.\<close>

theorem o1_2024_call_counterexample:
  "fst (get_llm LLMHandler_init \<lparr>environ = Map.empty, stdout = []\<rparr> ''o1-2024-12-17'' None 0.9
          (Some 4000) None [])
     = Inl (UnsupportedProviderError ''openai'' [''ollama''])"
  by (simp add: get_llm_def detect_provider_unfold detect_o1 validate_model_def catalog_init dict_keys_simps)

text \<open>
  C4. For \<^verbatim>\<open>accounts/fireworks/models/deepseek-r1\<close> detection returns
  \<^verbatim>\<open>fireworks\<close>: that pattern stands before \<^verbatim>\<open>r1\<close> in the table, and no earlier
  pattern occurs in the name. The shipped catalog has no provider \<^verbatim>\<open>fireworks\<close> (its
  entry is commented out), so on the shipped handler \<open>get_llm\<close> raises the
  unsupported-provider error. On a handler whose catalog lists the name under
  \<^verbatim>\<open>fireworks\<close>, the call with the default arguments constructs \<^verbatim>\<open>ChatFireworks\<close>
  with the temperature 0.6 in place of the default 0.0.
\<close>

theorem deepseek_r1_call:
  "detect_provider LLMHandler_init ''accounts/fireworks/models/deepseek-r1'' = Inr ''fireworks''
   \<and> get_llm LLMHandler_init w ''accounts/fireworks/models/deepseek-r1'' None 0 (Some 4000) None []
       = (Inl (UnsupportedProviderError ''fireworks'' [''ollama'']), w)
   \<and> (\<forall>models. map_of catalog ''fireworks'' = Some models
          \<and> ''accounts/fireworks/models/deepseek-r1'' \<in> set models \<longrightarrow>
        get_llm (LLMHandler_init\<lparr>available_models := catalog\<rparr>) w
            ''accounts/fireworks/models/deepseek-r1'' None 0 (Some 4000) None []
          = (Inr (Some \<lparr>cls = ChatFireworks,
                        ctor_kwargs = [(''model'', PyStr ''accounts/fireworks/models/deepseek-r1''),
                                       (''temperature'', PyFloat 0.6),
                                       (''max_tokens'', PyInt 4000)]\<rparr>),
             print_line w ''Using Fireworks''))"
proof -
  have d: "detect_provider (LLMHandler_init\<lparr>available_models := c\<rparr>)
             ''accounts/fireworks/models/deepseek-r1'' = Inr ''fireworks''" for c
    using detect_deepseek_r1 by (simp add: detect_provider_unfold)
  have d0: "detect_provider LLMHandler_init ''accounts/fireworks/models/deepseek-r1'' = Inr ''fireworks''"
    using detect_deepseek_r1 by (simp add: detect_provider_unfold)
  have "validate_model LLMHandler_init ''fireworks'' ''accounts/fireworks/models/deepseek-r1''
          = Inl (UnsupportedProviderError ''fireworks'' [''ollama''])"
    by (simp add: validate_model_def catalog_init dict_keys_simps)
  then have shipped:
    "get_llm LLMHandler_init w ''accounts/fireworks/models/deepseek-r1'' None 0 (Some 4000) None []
       = (Inl (UnsupportedProviderError ''fireworks'' [''ollama'']), w)"
    by (simp add: get_llm_fails_early [where provider' = "''fireworks''"] d0)
  have "dispatch w ''fireworks'' ''accounts/fireworks/models/deepseek-r1''
          [(''temperature'', PyFloat 0.6), (''max_tokens'', PyInt 4000)]
      = (Inr (Some \<lparr>cls = ChatFireworks,
                        ctor_kwargs = [(''model'', PyStr ''accounts/fireworks/models/deepseek-r1''),
                                       (''temperature'', PyFloat 0.6),
                                       (''max_tokens'', PyInt 4000)]\<rparr>),
             print_line w ''Using Fireworks'')"
    by (simp add: dispatch_def call_constructor_def dict_keys_simps)
  then have "get_llm (LLMHandler_init\<lparr>available_models := catalog\<rparr>) w
            ''accounts/fireworks/models/deepseek-r1'' None 0 (Some 4000) None []
          = (Inr (Some \<lparr>cls = ChatFireworks,
                        ctor_kwargs = [(''model'', PyStr ''accounts/fireworks/models/deepseek-r1''),
                                       (''temperature'', PyFloat 0.6),
                                       (''max_tokens'', PyInt 4000)]\<rparr>),
             print_line w ''Using Fireworks'')"
    if "map_of catalog ''fireworks'' = Some models"
      "''accounts/fireworks/models/deepseek-r1'' \<in> set models" for models
    using that
    by (simp add: get_llm_no_key [where provider' = "''fireworks''"] d validate_model_listed
        params_deepseek_r1)
  with shipped d0 show ?thesis by blast
qed

text \<open>
  The theorem at a catalog with the two \<^verbatim>\<open>deepseek\<close> names of lines 54 and 55 under
  \<^verbatim>\<open>fireworks\<close>.
\<close>

theorem deepseek_r1_call_witness:
  "map_of [(''fireworks'', [''accounts/fireworks/models/deepseek-v3'',
                            ''accounts/fireworks/models/deepseek-r1''])] ''fireworks''
     = Some [''accounts/fireworks/models/deepseek-v3'', ''accounts/fireworks/models/deepseek-r1'']
   \<and> ''accounts/fireworks/models/deepseek-r1''
       \<in> set [''accounts/fireworks/models/deepseek-v3'', ''accounts/fireworks/models/deepseek-r1'']
   \<and> get_llm (LLMHandler_init\<lparr>available_models :=
          [(''fireworks'', [''accounts/fireworks/models/deepseek-v3'',
                            ''accounts/fireworks/models/deepseek-r1''])]\<rparr>)
        \<lparr>environ = Map.empty, stdout = []\<rparr>
        ''accounts/fireworks/models/deepseek-r1'' None 0 (Some 4000) None []
      = (Inr (Some \<lparr>cls = ChatFireworks,
                    ctor_kwargs = [(''model'', PyStr ''accounts/fireworks/models/deepseek-r1''),
                                   (''temperature'', PyFloat 0.6),
                                   (''max_tokens'', PyInt 4000)]\<rparr>),
         \<lparr>environ = Map.empty, stdout = [''Using Fireworks'']\<rparr>)"
  using deepseek_r1_call [where w = "\<lparr>environ = Map.empty, stdout = []\<rparr>" and catalog =
          "[(''fireworks'', [''accounts/fireworks/models/deepseek-v3'',
                            ''accounts/fireworks/models/deepseek-r1''])]"]
  by (simp add: print_line_def)

text \<open>On the shipped handler the call ends in the error: no temperature is passed to anything.\<close>

theorem deepseek_r1_call_counterexample:
  "fst (get_llm LLMHandler_init \<lparr>environ = Map.empty, stdout = []\<rparr>
          ''accounts/fireworks/models/deepseek-r1'' None 0 (Some 4000) None [])
     = Inl (UnsupportedProviderError ''fireworks'' [''ollama''])"
  by (simp add: get_llm_def detect_provider_unfold detect_deepseek_r1 validate_model_def catalog_init
      dict_keys_simps)

subsection \<open>Detection, validation, enumeration\<close>

text \<open>
  C5. For every handler, every model name and every case mapping \<open>lower\<close> (so for
  \<^verbatim>\<open>str.lower\<close>, on ASCII names and on all others), the method as the source computes it
  (the loop with its early return, on the search \<open>str_contains\<close>) is the specification's
  first match: the provider of the first pair of the table, in definition order, whose
  pattern is a substring of the lower-cased name, and the detection error when no pattern
  of the table is one. \<open>detect_provider\<close> is that first match under the ASCII
  lower-casing \<open>str_lower\<close>, which moves the capital letters (codes 65 to 90) up by 32
  and keeps every other byte. The lower-casing decides the result:
  \<^verbatim>\<open>Meta-LLAMA-3.1-8B\<close> is detected as \<^verbatim>\<open>ollama\<close> through the pattern \<^verbatim>\<open>llama\<close>,
  and the same loop on the name as given finds no pattern in it.
\<close>

theorem detect_provider_first_match:
  "detect_provider_with lower self model_name = detect_provider_spec lower self model_name
   \<and> detect_provider self model_name = detect_provider_spec str_lower self model_name
   \<and> str_lower model_name =
        map (\<lambda>c. if 65 \<le> (of_char c :: nat) \<and> (of_char c :: nat) \<le> 90
                  then char_of (of_char c + 32 :: nat) else c) model_name
   \<and> str_lower ''Meta-LLAMA-3.1-8B'' = ''meta-llama-3.1-8b''
   \<and> detect_provider LLMHandler_init ''Meta-LLAMA-3.1-8B'' = Inr ''ollama''
   \<and> detect_provider_with (\<lambda>s. s) LLMHandler_init ''Meta-LLAMA-3.1-8B''
        = Inl (ProviderDetectionError ''Meta-LLAMA-3.1-8B'')"
proof -
  have generic: "detect_provider_with f self model_name = detect_provider_spec f self model_name"
    for f
    by (simp add: detect_provider_with_def detect_provider_spec_def detect_loop_find
        split: option.splits prod.splits)
  have codes: "str_lower model_name =
        map (\<lambda>c. if 65 \<le> (of_char c :: nat) \<and> (of_char c :: nat) \<le> 90
                  then char_of (of_char c + 32 :: nat) else c) model_name"
    by (simp add: str_lower_def lower_char_code)
  have lowered: "str_lower ''Meta-LLAMA-3.1-8B'' = ''meta-llama-3.1-8b''"
    by (simp add: str_lower_def lower_char_def)
  have capitals: "detect_provider LLMHandler_init ''Meta-LLAMA-3.1-8B'' = Inr ''ollama''"
    by (simp add: detect_provider_unfold detect_capitals)
  have as_given: "detect_provider_with (\<lambda>s. s) LLMHandler_init ''Meta-LLAMA-3.1-8B''
        = Inl (ProviderDetectionError ''Meta-LLAMA-3.1-8B'')"
    by (simp add: detect_provider_with_def detect_capitals_as_given)
  from generic [of lower] generic [of str_lower] codes lowered capitals as_given
  show ?thesis
    by (simp add: detect_provider_def)
qed

text \<open>
  C6. \<open>validate_model\<close> raises the unsupported-provider error when the provider is not a
  key of the catalog, the unsupported-model error when it is a key and the model is not in
  its list, and returns \<^verbatim>\<open>True\<close> otherwise. On the shipped handler
  \<^verbatim>\<open>("ollama", "llama3.2:3b")\<close> is accepted and \<^verbatim>\<open>("ollama", "gpt-4o")\<close> is an
  unsupported model. The function reads \<^verbatim>\<open>self.available_models\<close> and writes nothing:
  its model is a function of the handler and its two arguments alone.
\<close>

theorem validate_model_outcomes:
  "(provider \<notin> set (dict_keys (available_models self)) \<longrightarrow>
      validate_model self provider model_name =
        Inl (UnsupportedProviderError provider (dict_keys (available_models self))))
   \<and> (\<forall>models. map_of (available_models self) provider = Some models \<and> model_name \<notin> set models \<longrightarrow>
        validate_model self provider model_name =
          Inl (UnsupportedModelError model_name provider models))
   \<and> (\<forall>models. map_of (available_models self) provider = Some models \<and> model_name \<in> set models \<longrightarrow>
        validate_model self provider model_name = Inr True)
   \<and> validate_model LLMHandler_init ''ollama'' ''llama3.2:3b'' = Inr True
   \<and> validate_model LLMHandler_init ''ollama'' ''gpt-4o'' =
        Inl (UnsupportedModelError ''gpt-4o'' ''ollama'' [''llama3.2:3b'', ''mistral:7b''])"
proof -
  have "map_of (available_models self) provider = None"
    if "provider \<notin> set (dict_keys (available_models self))"
    using that by (simp add: dict_keys_def map_of_eq_None_iff)
  then show ?thesis
    by (auto simp: validate_model_def catalog_init)
qed

text \<open>The three cases of the theorem on the shipped handler, one input for each.\<close>

theorem validate_model_outcomes_witness:
  "''openai'' \<notin> set (dict_keys (available_models LLMHandler_init))
   \<and> validate_model LLMHandler_init ''openai'' ''o1-2024-12-17'' =
        Inl (UnsupportedProviderError ''openai'' [''ollama''])
   \<and> map_of (available_models LLMHandler_init) ''ollama'' = Some [''llama3.2:3b'', ''mistral:7b'']
   \<and> ''o1-2024-12-17'' \<notin> set [''llama3.2:3b'', ''mistral:7b'']
   \<and> validate_model LLMHandler_init ''ollama'' ''o1-2024-12-17'' =
        Inl (UnsupportedModelError ''o1-2024-12-17'' ''ollama'' [''llama3.2:3b'', ''mistral:7b''])
   \<and> ''mistral:7b'' \<in> set [''llama3.2:3b'', ''mistral:7b'']
   \<and> validate_model LLMHandler_init ''ollama'' ''mistral:7b'' = Inr True"
  using validate_model_outcomes [where self = LLMHandler_init and provider = "''openai''"
      and model_name = "''o1-2024-12-17''"]
    validate_model_outcomes [where self = LLMHandler_init and provider = "''ollama''"
      and model_name = "''o1-2024-12-17''"]
    validate_model_outcomes [where self = LLMHandler_init and provider = "''ollama''"
      and model_name = "''mistral:7b''"]
  by (simp add: catalog_init dict_keys_simps)

subsection \<open>The key in the environment\<close>

text \<open>
  C7. The shipped catalog has no provider \<^verbatim>\<open>openai\<close>, so on the shipped handler a call with
  \<^verbatim>\<open>provider="openai"\<close> fails in validation, before line 163, and the environment stays
  as it was, whatever the key. On a handler whose catalog lists the model under
  \<^verbatim>\<open>openai\<close>, a key that is not empty and has no NUL character is stored: after the call
  the environment is the one before it with \<^verbatim>\<open>OPENAI_API_KEY\<close> set to the key exactly.
\<close>

theorem openai_api_key_exported:
  "environ (snd (get_llm LLMHandler_init w model_name (Some ''openai'') temperature max_tokens
                   (Some api_key) kwargs)) = environ w
   \<and> (\<forall>models. map_of (available_models self) ''openai'' = Some models \<and> model_name \<in> set models
          \<and> api_key \<noteq> [] \<and> CHR 0x00 \<notin> set api_key \<longrightarrow>
        environ (snd (get_llm self w model_name (Some ''openai'') temperature max_tokens
                        (Some api_key) kwargs))
          = (environ w)(''OPENAI_API_KEY'' \<mapsto> api_key))"
proof -
  have "validate_model LLMHandler_init ''openai'' model_name
          = Inl (UnsupportedProviderError ''openai'' [''ollama''])"
    by (simp add: validate_model_def catalog_init dict_keys_simps)
  then have shipped:
    "get_llm LLMHandler_init w model_name (Some ''openai'') temperature max_tokens (Some api_key) kwargs
       = (Inl (UnsupportedProviderError ''openai'' [''ollama'']), w)"
    by (simp add: get_llm_fails_early [where provider' = "''openai''"])
  have "environ (snd (get_llm self w model_name (Some ''openai'') temperature max_tokens
                        (Some api_key) kwargs))
          = (environ w)(''OPENAI_API_KEY'' \<mapsto> api_key)"
    if "map_of (available_models self) ''openai'' = Some models" "model_name \<in> set models"
      "api_key \<noteq> []" "CHR 0x00 \<notin> set api_key" for models
  proof -
    have v: "validate_model self ''openai'' model_name = Inr True"
      using that by (simp add: validate_model_listed)
    have s: "environ_setitem w (str_upper ''openai'' @ ''_API_KEY'') api_key
               = Inr (w\<lparr>environ := (environ w)(''OPENAI_API_KEY'' \<mapsto> api_key)\<rparr>)"
      using that by (simp add: upper_openai environ_setitem_def)
    show ?thesis
      using api_key_exported [OF v that(3) s] by (simp add: upper_openai)
  qed
  with shipped show ?thesis by auto
qed

text \<open>
  The theorem at a handler whose catalog lists \<^verbatim>\<open>gpt-4o-mini\<close> under \<^verbatim>\<open>openai\<close>, in
  an empty environment.
\<close>

theorem openai_api_key_exported_witness:
  "map_of (available_models (LLMHandler_init\<lparr>available_models := [(''openai'', [''gpt-4o-mini''])]\<rparr>))
      ''openai'' = Some [''gpt-4o-mini'']
   \<and> ''gpt-4o-mini'' \<in> set [''gpt-4o-mini'']
   \<and> ''sk-test'' \<noteq> [] \<and> CHR 0x00 \<notin> set ''sk-test''
   \<and> environ (snd (get_llm (LLMHandler_init\<lparr>available_models := [(''openai'', [''gpt-4o-mini''])]\<rparr>)
                      \<lparr>environ = Map.empty, stdout = []\<rparr> ''gpt-4o-mini'' (Some ''openai'') 0
                      (Some 4000) (Some ''sk-test'') [])) ''OPENAI_API_KEY''
       = Some ''sk-test''"
  using openai_api_key_exported [where self = "LLMHandler_init\<lparr>available_models := [(''openai'', [''gpt-4o-mini''])]\<rparr>"
      and w = "\<lparr>environ = Map.empty, stdout = []\<rparr>" and model_name = "''gpt-4o-mini''"
      and api_key = "''sk-test''" and temperature = 0 and max_tokens = "Some 4000" and kwargs = "[]"]
  by simp

text \<open>
  On the shipped handler \<^verbatim>\<open>get_llm("gpt-4o-mini", provider="openai", api_key="sk-test")\<close>
  raises, and \<^verbatim>\<open>OPENAI_API_KEY\<close> is still unset after the call.
\<close>

theorem openai_api_key_counterexample:
  "get_llm LLMHandler_init \<lparr>environ = Map.empty, stdout = []\<rparr> ''gpt-4o-mini'' (Some ''openai'') 0
       (Some 4000) (Some ''sk-test'') []
     = (Inl (UnsupportedProviderError ''openai'' [''ollama'']), \<lparr>environ = Map.empty, stdout = []\<rparr>)
   \<and> environ (snd (get_llm LLMHandler_init \<lparr>environ = Map.empty, stdout = []\<rparr> ''gpt-4o-mini''
                     (Some ''openai'') 0 (Some 4000) (Some ''sk-test'') [])) ''OPENAI_API_KEY'' = None"
  by (simp add: get_llm_def validate_model_def catalog_init dict_keys_simps)

subsection \<open>Catalog against pattern table\<close>

text \<open>
  C8. Detection does not follow the catalog: \<^verbatim>\<open>mistral:7b\<close> is listed under \<^verbatim>\<open>ollama\<close>
  in the shipped catalog, and \<open>detect_provider\<close> on it does not return \<^verbatim>\<open>ollama\<close>. No
  pattern of the table occurs in the name (\<^verbatim>\<open>mistral-\<close> does not: the name has a colon
  where the pattern has a hyphen), so detection raises.
\<close>

theorem catalog_model_not_detected:
  "(''ollama'', [''llama3.2:3b'', ''mistral:7b'']) \<in> set (available_models LLMHandler_init)
   \<and> ''mistral:7b'' \<in> set [''llama3.2:3b'', ''mistral:7b'']
   \<and> detect_provider LLMHandler_init ''mistral:7b'' = Inl (ProviderDetectionError ''mistral:7b'')
   \<and> detect_provider LLMHandler_init ''mistral:7b'' \<noteq> Inr ''ollama''
   \<and> (\<exists>provider models model. (provider, models) \<in> set (available_models LLMHandler_init)
          \<and> model \<in> set models \<and> detect_provider LLMHandler_init model \<noteq> Inr provider)"
proof -
  have d: "detect_provider LLMHandler_init ''mistral:7b'' = Inl (ProviderDetectionError ''mistral:7b'')"
    by (simp add: detect_provider_unfold detect_mistral_7b)
  have m: "(''ollama'', [''llama3.2:3b'', ''mistral:7b'']) \<in> set (available_models LLMHandler_init)"
    by (simp add: catalog_init)
  have n: "''mistral:7b'' \<in> set [''llama3.2:3b'', ''mistral:7b'']"
    by simp
  have "detect_provider LLMHandler_init ''mistral:7b'' \<noteq> Inr ''ollama''"
    by (simp add: d)
  with m n d show ?thesis by blast
qed

text \<open>
  C9. \<open>get_all_models\<close> is the concatenation of the lists of the catalog, in the order of
  the providers and then of each list: nothing is removed and nothing is reordered, and
  the length is the sum of the lengths of the lists. On the shipped handler it is the two
  names of \<^verbatim>\<open>ollama\<close>.
\<close>

theorem get_all_models_concat:
  "get_all_models self = concat (map snd (available_models self))
   \<and> length (get_all_models self) = sum_list (map (\<lambda>(provider, models). length models) (available_models self))
   \<and> get_all_models LLMHandler_init = [''llama3.2:3b'', ''mistral:7b'']"
proof -
  have c: "get_all_models h = concat (map snd (available_models h))" for h
    by (simp add: get_all_models_def foldl_extend)
  have "map length (map snd table) = map (\<lambda>(provider, models). length models) table"
    for table :: "string list dict"
    by (induction table) auto
  then have "length (concat (map snd table)) = sum_list (map (\<lambda>(provider, models). length models) table)"
    for table :: "string list dict"
    by (simp add: length_concat del: map_map)
  then show ?thesis
    by (simp add: c catalog_init)
qed

text \<open>
  C10. \<^verbatim>\<open>if api_key:\<close> tests the truth value of the key, and the empty string is false:
  a call with \<^verbatim>\<open>api_key=""\<close> does what the call without a key does, and the environment
  after it is the environment before it, for every handler and every other argument.
\<close>

theorem empty_api_key_leaves_environ:
  "get_llm self w model_name provider temperature max_tokens (Some '''') kwargs =
     get_llm self w model_name provider temperature max_tokens None kwargs
   \<and> environ (snd (get_llm self w model_name provider temperature max_tokens (Some '''') kwargs)) = environ w"
proof -
  have "environ (snd (get_llm self w model_name provider temperature max_tokens None kwargs)) = environ w"
    by (simp add: get_llm_def environ_dispatch split: sum.splits)
  moreover have "get_llm self w model_name provider temperature max_tokens (Some '''') kwargs =
     get_llm self w model_name provider temperature max_tokens None kwargs"
    by (simp add: get_llm_def split: sum.splits)
  ultimately show ?thesis by simp
qed

end
